theory Spec2Isabelle
  imports Main
begin

section \<open>The annotation script: data\<close>

text \<open>
  The program is one script, \<^verbatim>\<open>streamlit_UI_final.py\<close>, that the framework runs from
  top to bottom once per user action. Its state is the four entries of
  \<^verbatim>\<open>st.session_state\<close> and the files under \<^verbatim>\<open>saved_annotations\<close>. What lies outside the
  script (the scene catalog file, whether a file can be written, what \<^verbatim>\<open>Image.open\<close>
  does with a path and \<^verbatim>\<open>st.image\<close> with an image) is a parameter of the model, collected
  in the record \<open>env\<close>.

  Strings are lists of characters read as code points below 256.
\<close>

datatype py_exception =
    ZeroDivisionError | OSError | UnidentifiedImageError | KeyboardInterrupt | StreamlitAPIException

text \<open>Values that \<^verbatim>\<open>json.dump\<close> writes: the script builds them from dict, list, str, int and None.\<close>

datatype json = JNull | JInt int | JStr string | JArr "json list" | JObj "(string \<times> json) list"

text \<open>Subscripting a dict, \<^verbatim>\<open>d[k]\<close>; on anything else, and on a missing key, there is no value.\<close>

fun json_get :: "json \<Rightarrow> string \<Rightarrow> json option" where
  "json_get (JObj kvs) k = map_of kvs k"
| "json_get _ k = None"

fun json_keys :: "json \<Rightarrow> string list" where
  "json_keys (JObj kvs) = map fst kvs"
| "json_keys _ = []"

datatype image = Image "nat list"

text \<open>A record of the catalog, as the script reads it (\<^verbatim>\<open>scene["scene_id"]\<close>, \<^verbatim>\<open>scene["shots"]\<close>, ...).\<close>

record scene =
  scene_id :: string
  shots :: "string list"
  movie_A_image_paths :: "string list"
  movie_B_image_paths :: "string list"

text \<open>
  \<open>SCENES\<close> is the dict loaded from \<^verbatim>\<open>small_scenes.json\<close>, in key order; a Python dict has
  no key twice, which theorems that need it assume as \<open>distinct (SCENE_IDS e)\<close>.
  \<open>writable p\<close> says that \<^verbatim>\<open>open(p, "w")\<close> succeeds; \<open>image_open\<close> is \<^verbatim>\<open>Image.open\<close>, which
  reads the header of the file only; \<open>st_image\<close> is \<^verbatim>\<open>st.image\<close>, which reads the rest and can
  raise on an image that was opened.
\<close>

record env =
  SCENES :: "(string \<times> scene) list"
  writable :: "string \<Rightarrow> bool"
  image_open :: "string \<Rightarrow> py_exception + image"
  st_image :: "image \<Rightarrow> py_exception + unit"

definition SCENE_IDS :: "env \<Rightarrow> string list" where
  "SCENE_IDS e = map fst (SCENES e)"

definition TOTAL_SCENES :: "env \<Rightarrow> nat" where
  "TOTAL_SCENES e = length (SCENE_IDS e)"

definition SAVE_DIR :: string where
  "SAVE_DIR = ''saved_annotations''"

section \<open>Helpers\<close>

subsection \<open>load_images\<close>

text \<open>
  \<^verbatim>\<open>
  def load_images(paths):
      imgs = []
      for p in paths:
          try:
              imgs.append(Image.open(p))
          except:
              imgs.append(None)
      return imgs
  \<close>
  The body of the loop is a \<^verbatim>\<open>try\<close> with a bare \<^verbatim>\<open>except\<close>: \<open>load_one\<close> is that body, with
  the exception of \<^verbatim>\<open>Image.open\<close> as a value that the handler turns into \<^verbatim>\<open>None\<close>. The
  loop threads an exception like every other statement would, so that the result type
  can say whether one escapes.
\<close>

definition load_one :: "env \<Rightarrow> string \<Rightarrow> py_exception + image option" where
  "load_one e p = (case image_open e p of Inr img \<Rightarrow> Inr (Some img) | Inl ex \<Rightarrow> Inr None)"

fun load_images_loop :: "env \<Rightarrow> image option list \<Rightarrow> string list \<Rightarrow> py_exception + image option list" where
  "load_images_loop e imgs [] = Inr imgs"
| "load_images_loop e imgs (p # ps) =
     (case load_one e p of
        Inl ex \<Rightarrow> Inl ex
      | Inr x \<Rightarrow> load_images_loop e (imgs @ [x]) ps)"

definition load_images :: "env \<Rightarrow> string list \<Rightarrow> py_exception + image option list" where
  "load_images e paths = load_images_loop e [] paths"

text \<open>What one path gives, read off \<^verbatim>\<open>Image.open\<close> alone.\<close>

definition opened :: "env \<Rightarrow> string \<Rightarrow> image option" where
  "opened e p = (case image_open e p of Inr img \<Rightarrow> Some img | Inl ex \<Rightarrow> None)"

subsection \<open>Session state and saved files\<close>

text \<open>
  The four entries of \<^verbatim>\<open>st.session_state\<close>, and the directory \<^verbatim>\<open>saved_annotations\<close> as the
  list of the writes made to it, newest first: the content of a file is what the newest
  write to its path put there. A file holds the value given to \<^verbatim>\<open>json.dump\<close>.
  \<open>scene_idx\<close> starts at 0 and is only ever incremented, so it is a natural number.
\<close>

record world =
  ldapid :: "string option"
  scene_idx :: nat
  scene_results :: "json list"
  submitted_movie :: bool
  files :: "(string \<times> json) list"

text \<open>Lines 28 to 38: a new session, over whatever the directory holds.\<close>

definition session_start :: "(string \<times> json) list \<Rightarrow> world" where
  "session_start fs =
     \<lparr>ldapid = None, scene_idx = 0, scene_results = [], submitted_movie = False, files = fs\<rparr>"

definition read_file :: "world \<Rightarrow> string \<Rightarrow> json option" where
  "read_file w p = map_of (files w) p"

subsection \<open>save_progress\<close>

text \<open>
  \<^verbatim>\<open>
  def save_progress(movie_level=None):
      data = {
          "ldapid": st.session_state.ldapid,
          "progress": {
              "completed_scenes": st.session_state.scene_idx,
              "total_scenes": TOTAL_SCENES
          },
          "scene_level": st.session_state.scene_results
      }
      if movie_level is not None:
          data["movie_level"] = movie_level
      out_path = Path(SAVE_DIR) / f"annotations_{st.session_state.ldapid}.json"
      with open(out_path, "w") as f:
          json.dump(data, f, indent=2)
  \<close>
  \<open>snapshot\<close> is the dict \<^verbatim>\<open>data\<close>. The f-string formats \<^verbatim>\<open>None\<close> as the text None.
  When \<^verbatim>\<open>open\<close> raises, nothing has been written.

  \<^verbatim>\<open>Path(SAVE_DIR) / name\<close> joins the two texts with the separator and parses the result:
  the text is split at every separator, and the empty parts and the parts that are a
  single dot are dropped; the path is the remaining parts, joined by the separator.
\<close>

fun split_sep :: "string \<Rightarrow> string list" where
  "split_sep [] = [[]]"
| "split_sep (c # cs) =
     (if c = CHR ''/'' then [] # split_sep cs
      else (case split_sep cs of [] \<Rightarrow> [[c]] | x # xs \<Rightarrow> (c # x) # xs))"

fun join_sep :: "string list \<Rightarrow> string" where
  "join_sep [] = []"
| "join_sep [x] = x"
| "join_sep (x # y # ys) = x @ ''/'' @ join_sep (y # ys)"

definition path_parts :: "string \<Rightarrow> string list" where
  "path_parts s = filter (\<lambda>x. x \<noteq> [] \<and> x \<noteq> ''.'') (split_sep s)"

definition ldapid_json :: "string option \<Rightarrow> json" where
  "ldapid_json l = (case l of None \<Rightarrow> JNull | Some s \<Rightarrow> JStr s)"

definition ldapid_str :: "string option \<Rightarrow> string" where
  "ldapid_str l = (case l of None \<Rightarrow> ''None'' | Some s \<Rightarrow> s)"

definition snapshot :: "env \<Rightarrow> json option \<Rightarrow> world \<Rightarrow> json" where
  "snapshot e movie_level w =
     JObj ([(''ldapid'', ldapid_json (ldapid w)),
            (''progress'', JObj [(''completed_scenes'', JInt (int (scene_idx w))),
                                 (''total_scenes'', JInt (int (TOTAL_SCENES e)))]),
            (''scene_level'', JArr (scene_results w))]
           @ (case movie_level of None \<Rightarrow> [] | Some m \<Rightarrow> [(''movie_level'', m)]))"

definition out_path :: "string option \<Rightarrow> string" where
  "out_path l =
     join_sep (path_parts (SAVE_DIR @ ''/'' @ ''annotations_'' @ ldapid_str l @ ''.json''))"

definition save_progress :: "env \<Rightarrow> json option \<Rightarrow> world \<Rightarrow> py_exception + world" where
  "save_progress e movie_level w =
     (let data = snapshot e movie_level w;
          p = out_path (ldapid w)
      in if writable e p then Inr (w\<lparr>files := (p, data) # files w\<rparr>) else Inl OSError)"

subsection \<open>get_scene\<close>

text \<open>
  \<^verbatim>\<open>
  def get_scene():
      if st.session_state.scene_idx >= TOTAL_SCENES:
          return None
      return SCENES[SCENE_IDS[st.session_state.scene_idx]]
  \<close>
\<close>

definition get_scene :: "env \<Rightarrow> world \<Rightarrow> scene option" where
  "get_scene e w =
     (if scene_idx w \<ge> TOTAL_SCENES e then None
      else map_of (SCENES e) (SCENE_IDS e ! scene_idx w))"

section \<open>The script\<close>

subsection \<open>Widgets and clicks\<close>

text \<open>
  \<^verbatim>\<open>str.strip()\<close> removes the white space at both ends; below 256 the white-space code
  points of Python are 9 to 13, 28 to 32, 133 and 160.
\<close>

definition py_isspace :: "char \<Rightarrow> bool" where
  "py_isspace c = (let n = (of_char c :: nat) in
     (9 \<le> n \<and> n \<le> 13) \<or> (28 \<le> n \<and> n \<le> 32) \<or> n = 133 \<or> n = 160)"

definition strip :: "string \<Rightarrow> string" where
  "strip s = rev (dropWhile py_isspace (rev (dropWhile py_isspace s)))"

text \<open>
  The values of the widgets of the scene form (lines 195 to 208) and of the movie form
  (lines 243 to 253), under the names of the variables that receive them. The movie form
  assigns its second pairwise choice to \<^verbatim>\<open>pair_char\<close> again; it is \<open>pair_char_m\<close> here.
  A rating is a Python int and a choice a Python str: the handlers store what they are
  given. The radio buttons offer \<open>rating_options\<close> and \<open>pairwise_options\<close>.
\<close>

record scene_form =
  bgA :: int
  charA :: int
  cineA :: int
  bgB :: int
  charB :: int
  cineB :: int
  pair_bg :: string
  pair_char :: string
  pair_cine :: string
  comment :: string

record movie_form =
  narA :: int
  charA_m :: int
  spaceA :: int
  narB :: int
  charB_m :: int
  spaceB :: int
  pair_nar :: string
  pair_char_m :: string
  pair_space :: string




text \<open>
  What the user did to cause a run of the script: nothing (a rerun), or a click on one of
  the three buttons, with the values the widgets of its form hold.
\<close>

datatype event =
    NoClick
  | StartAnnotation string
  | SaveScene scene_form
  | SubmitFinal movie_form

text \<open>Calls of \<^verbatim>\<open>st.error\<close> and \<^verbatim>\<open>st.success\<close>, with their text (the emoji left out).\<close>

datatype notice = StError string | StSuccess string

text \<open>
  A run ends at \<^verbatim>\<open>st.stop()\<close> or at the last line (\<open>Stop\<close>, with the notices shown), at
  \<^verbatim>\<open>st.rerun()\<close> (\<open>Rerun\<close>), or with an exception that nothing catches (\<open>Raise\<close>). The
  session state and the files are as the run left them in each case.
\<close>

datatype run_end = Stop world "notice list" | Rerun world | Raise py_exception world

fun world_of :: "run_end \<Rightarrow> world" where
  "world_of (Stop w ns) = w"
| "world_of (Rerun w) = w"
| "world_of (Raise ex w) = w"

text \<open>A run fails when an exception escapes or \<^verbatim>\<open>st.error\<close> is called.\<close>

fun is_error :: "notice \<Rightarrow> bool" where
  "is_error (StError m) = True"
| "is_error (StSuccess m) = False"

fun failed :: "run_end \<Rightarrow> bool" where
  "failed (Stop w ns) = (filter is_error ns \<noteq> [])"
| "failed (Rerun w) = False"
| "failed (Raise ex w) = True"

subsection \<open>The LDAP ID gate, lines 88 to 104\<close>

text \<open>
  \<^verbatim>\<open>
  if st.session_state.ldapid is None:
      ldap = st.text_input(...)
      if st.button("Start Annotation"):
          if ldap.strip() == "":
              st.error("LDAP ID is required.")
          else:
              st.session_state.ldapid = ldap.strip()
              save_progress()
              st.rerun()
      st.stop()
  \<close>
\<close>

definition ldap_gate :: "env \<Rightarrow> event \<Rightarrow> world \<Rightarrow> run_end" where
  "ldap_gate e ev w =
     (case ev of
        StartAnnotation ldap \<Rightarrow>
          if strip ldap = [] then Stop w [StError ''LDAP ID is required.'']
          else (let w1 = w\<lparr>ldapid := Some (strip ldap)\<rparr> in
                case save_progress e None w1 of
                  Inl ex \<Rightarrow> Raise ex w1
                | Inr w2 \<Rightarrow> Rerun w2)
      | _ \<Rightarrow> Stop w [])"

subsection \<open>The scene form, lines 154 to 233\<close>

text \<open>The dict that the handler of Save Scene and Continue appends (lines 211 to 229).\<close>

definition scene_result :: "scene \<Rightarrow> scene_form \<Rightarrow> json" where
  "scene_result sc f =
     JObj [(''scene_id'', JStr (scene_id sc)),
           (''movie_A'', JObj [(''background'', JInt (bgA f)),
                               (''character'', JInt (charA f)),
                               (''cinematic'', JInt (cineA f))]),
           (''movie_B'', JObj [(''background'', JInt (bgB f)),
                               (''character'', JInt (charB f)),
                               (''cinematic'', JInt (cineB f))]),
           (''pairwise'', JObj [(''background'', JStr (pair_bg f)),
                                (''character'', JStr (pair_char f)),
                                (''cinematic'', JStr (pair_cine f))]),
           (''comment'', JStr (comment f))]"

text \<open>
  The images of one movie, lines 168 to 174 and 179 to 185:
  \<^verbatim>\<open>
  colsA = st.columns(len(imgsA))
  for i, col in enumerate(colsA):
      with col:
          if imgsA[i]:
              st.image(imgsA[i], width="stretch")
          st.caption(f"Shot {i+1}")
  \<close>
  \<^verbatim>\<open>st.columns\<close> raises when it is asked for no column, and \<^verbatim>\<open>st.image\<close> can raise.
\<close>

definition st_columns :: "nat \<Rightarrow> py_exception + nat" where
  "st_columns n = (if n = 0 then Inl StreamlitAPIException else Inr n)"

fun draw_images :: "env \<Rightarrow> image option list \<Rightarrow> py_exception + unit" where
  "draw_images e [] = Inr ()"
| "draw_images e (x # xs) =
     (case x of
        None \<Rightarrow> draw_images e xs
      | Some img \<Rightarrow>
          (case st_image e img of
             Inl ex \<Rightarrow> Inl ex
           | Inr u \<Rightarrow> draw_images e xs))"

definition scene_visuals :: "env \<Rightarrow> image option list \<Rightarrow> py_exception + unit" where
  "scene_visuals e imgs =
     (case st_columns (length imgs) of
        Inl ex \<Rightarrow> Inl ex
      | Inr n \<Rightarrow> draw_images e imgs)"

text \<open>
  The branch \<^verbatim>\<open>else\<close> of line 153: the images of both movies are loaded and drawn, the
  form is drawn, and a click on the button appends the result, increments the index,
  saves and reruns. An exception while the images are drawn ends the run before the
  button is reached. The two assignments of the handler come before
  \<^verbatim>\<open>save_progress()\<close>, so they stand when it raises.
\<close>

definition scene_ui :: "env \<Rightarrow> event \<Rightarrow> scene \<Rightarrow> world \<Rightarrow> run_end" where
  "scene_ui e ev sc w =
     (case load_images e (movie_A_image_paths sc) of
        Inl ex \<Rightarrow> Raise ex w
      | Inr imgsA \<Rightarrow>
     (case load_images e (movie_B_image_paths sc) of
        Inl ex \<Rightarrow> Raise ex w
      | Inr imgsB \<Rightarrow>
     (case scene_visuals e imgsA of
        Inl ex \<Rightarrow> Raise ex w
      | Inr drawnA \<Rightarrow>
     (case scene_visuals e imgsB of
        Inl ex \<Rightarrow> Raise ex w
      | Inr drawnB \<Rightarrow>
     (case ev of
        SaveScene f \<Rightarrow>
          (let w1 = w\<lparr>scene_results := scene_results w @ [scene_result sc f]\<rparr>;
               w2 = w1\<lparr>scene_idx := scene_idx w1 + 1\<rparr>
           in case save_progress e None w2 of
                Inl ex \<Rightarrow> Raise ex w2
              | Inr w3 \<Rightarrow> Rerun w3)
      | _ \<Rightarrow> Stop w [])))))"

subsection \<open>The movie form, lines 239 to 277\<close>

text \<open>The dict passed as \<^verbatim>\<open>movie_level\<close> (lines 256 to 272).\<close>

definition movie_level_result :: "movie_form \<Rightarrow> json" where
  "movie_level_result m =
     JObj [(''movie_A'', JObj [(''narrative'', JInt (narA m)),
                               (''character'', JInt (charA_m m)),
                               (''spatial'', JInt (spaceA m))]),
           (''movie_B'', JObj [(''narrative'', JInt (narB m)),
                               (''character'', JInt (charB_m m)),
                               (''spatial'', JInt (spaceB m))]),
           (''pairwise'', JObj [(''narrative'', JStr (pair_nar m)),
                                (''character'', JStr (pair_char_m m)),
                                (''spatial'', JStr (pair_space m))])]"

text \<open>
  Reached with \<^verbatim>\<open>scene is None\<close>, after line 152 has shown its notice. The form and its
  button exist only while \<^verbatim>\<open>submitted_movie\<close> is false; the handler saves, sets the flag
  and shows the second notice, and the run goes on to the end of the script.
\<close>

definition movie_ui :: "env \<Rightarrow> event \<Rightarrow> world \<Rightarrow> run_end" where
  "movie_ui e ev w =
     (if \<not> submitted_movie w then
        (case ev of
           SubmitFinal m \<Rightarrow>
             (case save_progress e (Some (movie_level_result m)) w of
                Inl ex \<Rightarrow> Raise ex w
              | Inr w1 \<Rightarrow>
                  Stop (w1\<lparr>submitted_movie := True\<rparr>)
                    [StSuccess ''All scenes completed.'',
                     StSuccess ''All annotations saved successfully.''])
         | _ \<Rightarrow> Stop w [StSuccess ''All scenes completed.''])
      else Stop w [StSuccess ''All scenes completed.''])"

subsection \<open>One run, and one user action\<close>

text \<open>
  The script from line 88 on. Line 110 divides by \<^verbatim>\<open>TOTAL_SCENES\<close>:
  \<^verbatim>\<open>progress = st.session_state.scene_idx / TOTAL_SCENES\<close>.
\<close>

definition script :: "env \<Rightarrow> event \<Rightarrow> world \<Rightarrow> run_end" where
  "script e ev w =
     (if ldapid w = None then ldap_gate e ev w
      else if TOTAL_SCENES e = 0 then Raise ZeroDivisionError w
      else (case get_scene e w of
              Some sc \<Rightarrow> scene_ui e ev sc w
            | None \<Rightarrow> movie_ui e ev w))"

text \<open>
  A user action is the run it causes and, when that run ends in \<^verbatim>\<open>st.rerun()\<close>, the run
  that follows, in which no button is clicked.
\<close>

definition interact :: "env \<Rightarrow> event \<Rightarrow> world \<Rightarrow> run_end" where
  "interact e ev w =
     (case script e ev w of
        Rerun w' \<Rightarrow> script e NoClick w'
      | r \<Rightarrow> r)"

fun interact_all :: "env \<Rightarrow> event list \<Rightarrow> world \<Rightarrow> world" where
  "interact_all e [] w = w"
| "interact_all e (ev # evs) w = interact_all e evs (world_of (interact e ev w))"

text \<open>The state of the session as the spec names it, read off the session state.\<close>

datatype phase = AwaitingIdentity | Scening | AwaitingMovieLevel | Completed

definition phase_of :: "env \<Rightarrow> world \<Rightarrow> phase" where
  "phase_of e w =
     (if ldapid w = None then AwaitingIdentity
      else if scene_idx w < TOTAL_SCENES e then Scening
      else if \<not> submitted_movie w then AwaitingMovieLevel
      else Completed)"

section \<open>The operations the spec names\<close>

text \<open>
  The spec speaks of \<open>submitScene(sceneId, result)\<close>. A click on Save Scene and Continue
  delivers the values of the form and nothing else: the handler has no scene id to
  receive, it reads \<^verbatim>\<open>scene["scene_id"]\<close> from the catalog. So the operation of the spec
  is the click, whatever scene id the caller has in mind.
\<close>

definition submitScene :: "env \<Rightarrow> string \<Rightarrow> scene_form \<Rightarrow> world \<Rightarrow> run_end" where
  "submitScene e sceneId f w = interact e (SaveScene f) w"

text \<open>
  Modelled from the spec: the script never reads a saved file back, so the operation
  \<open>ProgressStore.load(identity) -> snapshot | NotFound\<close> has no code. It is modelled as
  reading the file that \<open>save_progress\<close> writes for that identity, \<open>None\<close> for NotFound;
  \<^verbatim>\<open>json.load\<close> of a file is taken to give back the value that \<^verbatim>\<open>json.dump\<close> wrote.
\<close>

definition load :: "world \<Rightarrow> string \<Rightarrow> json option" where
  "load w identity = read_file w (out_path (Some identity))"

section \<open>Auxiliary notions for the proofs\<close>

text \<open>The session state after lines 211 to 231, before the save.\<close>

definition appended :: "scene \<Rightarrow> scene_form \<Rightarrow> world \<Rightarrow> world" where
  "appended sc f w =
     w\<lparr>scene_results := scene_results w @ [scene_result sc f], scene_idx := scene_idx w + 1\<rparr>"

text \<open>
  A scene can be drawn when each movie has an image path and \<^verbatim>\<open>st.image\<close> accepts every
  image that was opened: lines 157 to 185 then raise nothing, and the form with its button
  is on the page.
\<close>

definition shown_ok :: "env \<Rightarrow> string list \<Rightarrow> bool" where
  "shown_ok e ps =
     (ps \<noteq> [] \<and>
      list_all (\<lambda>p. case opened e p of None \<Rightarrow> True | Some img \<Rightarrow> st_image e img = Inr ()) ps)"

definition drawable :: "env \<Rightarrow> scene \<Rightarrow> bool" where
  "drawable e sc = (shown_ok e (movie_A_image_paths sc) \<and> shown_ok e (movie_B_image_paths sc))"

text \<open>The scene at an index can be drawn, or there is no scene at that index.\<close>

definition drawable_at :: "env \<Rightarrow> nat \<Rightarrow> bool" where
  "drawable_at e i = (if i < TOTAL_SCENES e then drawable e (snd (SCENES e ! i)) else True)"

text \<open>The invariant of the spec: one result per completed scene, under the scene's id.\<close>

definition in_order :: "env \<Rightarrow> world \<Rightarrow> bool" where
  "in_order e w =
     (length (scene_results w) = scene_idx w \<and>
      (\<forall>i < scene_idx w. json_get (scene_results w ! i) ''scene_id''
          = Some (JStr (scene_id (snd (SCENES e ! i))))))"

section \<open>Sample data\<close>

text \<open>
  An empty catalog, and a catalog of two scenes whose keys differ from their scene ids;
  every file can be written, and one image can be opened.
\<close>

definition env0 :: env where
  "env0 = \<lparr>SCENES = [], writable = (\<lambda>p. True),
     image_open = (\<lambda>p. if p = ''a.png'' then Inr (Image [1, 2, 3]) else Inl OSError),
     st_image = (\<lambda>img. Inr ())\<rparr>"

definition sc1 :: scene where
  "sc1 = \<lparr>scene_id = ''s1'', shots = [''a door opens''],
     movie_A_image_paths = [''a.png''], movie_B_image_paths = [''b.png'']\<rparr>"

definition sc2 :: scene where
  "sc2 = \<lparr>scene_id = ''s2'', shots = [''a door closes''],
     movie_A_image_paths = [''a.png''], movie_B_image_paths = [''c.png'']\<rparr>"

definition env2 :: env where
  "env2 = \<lparr>SCENES = [(''k1'', sc1), (''k2'', sc2)], writable = (\<lambda>p. True),
     image_open = (\<lambda>p. if p = ''a.png'' then Inr (Image [1, 2, 3]) else Inl OSError),
     st_image = (\<lambda>img. Inr ())\<rparr>"

text \<open>
  The same catalog over a directory as line 12 leaves it: \<^verbatim>\<open>saved_annotations\<close> exists and
  has no subdirectory, so a file can be opened for writing when it lies in it directly.
\<close>

definition in_save_dir :: "string \<Rightarrow> bool" where
  "in_save_dir p = (case path_parts p of [d, n] \<Rightarrow> d = SAVE_DIR | _ \<Rightarrow> False)"

definition env3 :: env where
  "env3 = \<lparr>SCENES = [(''k1'', sc1), (''k2'', sc2)], writable = in_save_dir,
     image_open = (\<lambda>p. if p = ''a.png'' then Inr (Image [1, 2, 3]) else Inl OSError),
     st_image = (\<lambda>img. Inr ())\<rparr>"


definition f1 :: scene_form where
  "f1 = \<lparr>bgA = 3, charA = 4, cineA = 5, bgB = 2, charB = 2, cineB = 2,
     pair_bg = ''Movie A'', pair_char = ''Movie A'', pair_cine = ''Tie'', comment = ''''\<rparr>"

definition m1 :: movie_form where
  "m1 = \<lparr>narA = 5, charA_m = 5, spaceA = 5, narB = 1, charB_m = 1, spaceB = 1,
     pair_nar = ''Movie A'', pair_char_m = ''Movie A'', pair_space = ''Movie A''\<rparr>"

definition m2 :: movie_form where
  "m2 = \<lparr>narA = 1, charA_m = 1, spaceA = 1, narB = 5, charB_m = 5, spaceB = 5,
     pair_nar = ''Movie B'', pair_char_m = ''Movie B'', pair_space = ''Movie B''\<rparr>"

text \<open>The session of the annotator abc, past the gate, with nothing saved.\<close>

definition w_abc :: world where
  "w_abc = \<lparr>ldapid = Some ''abc'', scene_idx = 0, scene_results = [],
     submitted_movie = False, files = []\<rparr>"

text \<open>The same session over the empty catalog, once the gate has saved.\<close>

definition w0_abc :: world where
  "w0_abc = \<lparr>ldapid = Some ''abc'', scene_idx = 0, scene_results = [], submitted_movie = False,
     files = [(''saved_annotations/annotations_abc.json'',
               JObj [(''ldapid'', JStr ''abc''),
                     (''progress'', JObj [(''completed_scenes'', JInt 0),
                                          (''total_scenes'', JInt 0)]),
                     (''scene_level'', JArr [])])]\<rparr>"


text \<open>The session of abc run from the start to the final submission.\<close>

definition w_done :: world where
  "w_done = interact_all env2
     [StartAnnotation ''abc'', SaveScene f1, SaveScene f1, SubmitFinal m1] (session_start [])"

text \<open>The session of abc with both scenes done and the movie form open.\<close>

definition w_two :: world where
  "w_two = \<lparr>ldapid = Some ''abc'', scene_idx = 2,
     scene_results = [scene_result sc1 f1, scene_result sc2 f1],
     submitted_movie = False, files = []\<rparr>"

section \<open>Properties of load_images\<close>

lemma load_one_opened: "load_one e p = Inr (opened e p)"
  by (simp add: load_one_def opened_def split: sum.split)

lemma load_images_loop_map:
  "load_images_loop e imgs ps = Inr (imgs @ map (opened e) ps)"
  by (induction ps arbitrary: imgs) (simp_all add: load_one_opened)

lemma load_images_map: "load_images e ps = Inr (map (opened e) ps)"
  by (simp add: load_images_def load_images_loop_map)



text \<open>
  C10. The result of \<open>load_images\<close> has the length of the list of paths, and its i-th
  element is the image opened from the i-th path, or \<^verbatim>\<open>None\<close> when opening it raised.
\<close>

theorem load_images_aligned:
  "\<exists>imgs. load_images e ps = Inr imgs \<and> length imgs = length ps
     \<and> (\<forall>i < length ps. imgs ! i = opened e (ps ! i))"
  by (simp add: load_images_map)

theorem load_images_aligned_witness:
  "\<exists>imgs. load_images env0 [''missing.png'', ''a.png''] = Inr imgs \<and> length imgs = 2
     \<and> imgs ! 0 = None \<and> imgs ! 1 = Some (Image [1, 2, 3])"
proof -
  from load_images_aligned [of env0 "[''missing.png'', ''a.png'']"]
  obtain imgs where r: "load_images env0 [''missing.png'', ''a.png''] = Inr imgs"
    and l: "length imgs = 2"
    and n: "\<forall>i < 2. imgs ! i = opened env0 ([''missing.png'', ''a.png''] ! i)"
    by auto
  from n have "imgs ! 0 = opened env0 ''missing.png''" by simp
  then have 0: "imgs ! 0 = None" by (simp add: opened_def env0_def)
  from n have "imgs ! 1 = opened env0 ''a.png''" by simp
  then have 1: "imgs ! 1 = Some (Image [1, 2, 3])" by (simp add: opened_def env0_def)
  from r l 0 1 show ?thesis by blast
qed

section \<open>Properties of the script\<close>

subsection \<open>The pieces of a run\<close>

lemma map_of_nth_distinct:
  "distinct (map fst kvs) \<Longrightarrow> i < length kvs \<Longrightarrow>
   map_of kvs (map fst kvs ! i) = Some (snd (kvs ! i))"
  by (metis map_of_eq_Some_iff nth_map nth_mem prod.collapse)

lemma get_scene_nth:
  "distinct (SCENE_IDS e) \<Longrightarrow> scene_idx w < TOTAL_SCENES e \<Longrightarrow>
   get_scene e w = Some (snd (SCENES e ! scene_idx w))"
  by (simp add: get_scene_def TOTAL_SCENES_def SCENE_IDS_def map_of_nth_distinct)

lemma get_scene_past: "TOTAL_SCENES e \<le> scene_idx w \<Longrightarrow> get_scene e w = None"
  by (simp add: get_scene_def)

lemma save_progress_cases:
  "save_progress e m w =
     (if writable e (out_path (ldapid w))
      then Inr (w\<lparr>files := (out_path (ldapid w), snapshot e m w) # files w\<rparr>)
      else Inl OSError)"
  by (simp add: save_progress_def Let_def)

lemma out_path_abc: "out_path (Some ''abc'') = ''saved_annotations/annotations_abc.json''"
  by code_simp

text \<open>Drawing the images of a movie raises nothing exactly when \<open>shown_ok\<close> holds.\<close>

lemma draw_images_opened:
  "draw_images e (map (opened e) ps) = Inr () \<longleftrightarrow>
   list_all (\<lambda>p. case opened e p of None \<Rightarrow> True | Some img \<Rightarrow> st_image e img = Inr ()) ps"
proof (induction ps)
  case Nil
  show ?case by simp
next
  case (Cons p ps)
  show ?case
  proof (cases "opened e p")
    case None
    with Cons show ?thesis by simp
  next
    case (Some img)
    with Cons show ?thesis by (cases "st_image e img") auto
  qed
qed

lemma scene_visuals_shown:
  "scene_visuals e (map (opened e) ps) = Inr () \<longleftrightarrow> shown_ok e ps"
proof (cases "ps = []")
  case True
  then show ?thesis by (simp add: scene_visuals_def st_columns_def shown_ok_def)
next
  case False
  then have "scene_visuals e (map (opened e) ps) = draw_images e (map (opened e) ps)"
    by (simp add: scene_visuals_def st_columns_def)
  with False show ?thesis by (simp add: draw_images_opened shown_ok_def)
qed

lemma scene_ui_drawable:
  assumes "drawable e sc"
  shows "scene_ui e ev sc w =
     (case ev of
        SaveScene f \<Rightarrow>
          if writable e (out_path (ldapid w))
          then Rerun ((appended sc f w)
             \<lparr>files := (out_path (ldapid w), snapshot e None (appended sc f w)) # files w\<rparr>)
          else Raise OSError (appended sc f w)
      | _ \<Rightarrow> Stop w [])"
proof -
  from assms have a: "scene_visuals e (map (opened e) (movie_A_image_paths sc)) = Inr ()"
    and b: "scene_visuals e (map (opened e) (movie_B_image_paths sc)) = Inr ()"
    by (simp_all add: drawable_def scene_visuals_shown)
  show ?thesis
    by (cases ev)
       (simp_all add: scene_ui_def load_images_map a b save_progress_cases appended_def Let_def)
qed

lemma scene_ui_undrawable:
  assumes "\<not> drawable e sc"
  shows "\<exists>ex. scene_ui e ev sc w = Raise ex w"
proof (cases "scene_visuals e (map (opened e) (movie_A_image_paths sc))")
  case (Inl ex)
  then show ?thesis by (simp add: scene_ui_def load_images_map)
next
  case (Inr u)
  with assms have "scene_visuals e (map (opened e) (movie_B_image_paths sc)) \<noteq> Inr ()"
    by (simp add: drawable_def scene_visuals_shown [symmetric])
  then obtain ex where "scene_visuals e (map (opened e) (movie_B_image_paths sc)) = Inl ex"
    by (cases "scene_visuals e (map (opened e) (movie_B_image_paths sc))") auto
  with Inr show ?thesis by (simp add: scene_ui_def load_images_map)
qed

lemma world_of_scene_ui_NoClick: "world_of (scene_ui e NoClick sc w) = w"
proof (cases "drawable e sc")
  case True
  then show ?thesis by (simp add: scene_ui_drawable)
next
  case False
  from scene_ui_undrawable [OF this, of NoClick w] show ?thesis by auto
qed

lemma script_NoClick_Scening:
  "distinct (SCENE_IDS e) \<Longrightarrow> ldapid w = Some ident \<Longrightarrow> scene_idx w < TOTAL_SCENES e \<Longrightarrow>
   drawable e (snd (SCENES e ! scene_idx w)) \<Longrightarrow> script e NoClick w = Stop w []"
  by (simp add: script_def get_scene_nth scene_ui_drawable)

lemma script_NoClick_past:
  "ldapid w = Some ident \<Longrightarrow> 0 < TOTAL_SCENES e \<Longrightarrow> TOTAL_SCENES e \<le> scene_idx w \<Longrightarrow>
   script e NoClick w = Stop w [StSuccess ''All scenes completed.'']"
  by (simp add: script_def get_scene_past movie_ui_def)

lemma world_of_script_NoClick: "world_of (script e NoClick w) = w"
  by (simp add: script_def ldap_gate_def world_of_scene_ui_NoClick movie_ui_def
      split: option.split)

lemma interact_world: "world_of (interact e ev w) = world_of (script e ev w)"
  by (simp add: interact_def world_of_script_NoClick split: run_end.split)

lemma world_of_save_scene:
  assumes "distinct (SCENE_IDS e)" "ldapid w = Some ident" "scene_idx w < TOTAL_SCENES e"
    and "drawable e (snd (SCENES e ! scene_idx w))"
  shows "world_of (interact e (SaveScene f) w) =
     (if writable e (out_path (ldapid w))
      then (appended (snd (SCENES e ! scene_idx w)) f w)
             \<lparr>files := (out_path (ldapid w),
                        snapshot e None (appended (snd (SCENES e ! scene_idx w)) f w)) # files w\<rparr>
      else appended (snd (SCENES e ! scene_idx w)) f w)"
  using assms by (simp add: interact_world script_def get_scene_nth scene_ui_drawable)

subsection \<open>Results stay in catalog order\<close>

lemma json_get_scene_result:
  "json_get (scene_result sc f) ''scene_id'' = Some (JStr (scene_id sc))"
  by (simp add: scene_result_def)

lemma in_order_appended:
  assumes "in_order e w"
  shows "in_order e (appended (snd (SCENES e ! scene_idx w)) f w)"
  using assms
  by (auto simp: in_order_def appended_def nth_append less_Suc_eq json_get_scene_result)

lemma in_order_files: "in_order e (w\<lparr>files := fs\<rparr>) = in_order e w"
  by (simp add: in_order_def)

lemma save_scene_step:
  assumes "distinct (SCENE_IDS e)" "ldapid w = Some ident"
    and "scene_idx w < TOTAL_SCENES e" "in_order e w"
    and "drawable e (snd (SCENES e ! scene_idx w))"
  shows "in_order e (world_of (interact e (SaveScene f) w))
       \<and> scene_idx (world_of (interact e (SaveScene f) w)) = Suc (scene_idx w)
       \<and> ldapid (world_of (interact e (SaveScene f) w)) = Some ident"
  using assms in_order_appended [of e w f]
  by (simp add: world_of_save_scene in_order_files) (simp add: appended_def)

lemma save_scene_steps:
  assumes "distinct (SCENE_IDS e)"
  shows "ldapid w = Some ident \<Longrightarrow> in_order e w \<Longrightarrow>
         scene_idx w + length fs \<le> TOTAL_SCENES e \<Longrightarrow>
         (\<forall>i. scene_idx w \<le> i \<and> i < scene_idx w + length fs
               \<longrightarrow> drawable e (snd (SCENES e ! i))) \<Longrightarrow>
         in_order e (interact_all e (map SaveScene fs) w)
       \<and> scene_idx (interact_all e (map SaveScene fs) w) = scene_idx w + length fs
       \<and> ldapid (interact_all e (map SaveScene fs) w) = Some ident"
proof (induction fs arbitrary: w)
  case Nil
  then show ?case by simp
next
  case (Cons f fs)
  let ?w1 = "world_of (interact e (SaveScene f) w)"
  from Cons.prems have lt: "scene_idx w < TOTAL_SCENES e" by simp
  from Cons.prems(4) have dr: "drawable e (snd (SCENES e ! scene_idx w))" by simp
  from save_scene_step [OF assms Cons.prems(1) lt Cons.prems(2) dr]
  have 1: "in_order e ?w1" and 2: "scene_idx ?w1 = Suc (scene_idx w)"
    and 3: "ldapid ?w1 = Some ident"
    by simp_all
  from Cons.prems 2 have 4: "scene_idx ?w1 + length fs \<le> TOTAL_SCENES e" by simp
  from Cons.prems(4) 2
  have 5: "\<forall>i. scene_idx ?w1 \<le> i \<and> i < scene_idx ?w1 + length fs
              \<longrightarrow> drawable e (snd (SCENES e ! i))"
    by simp
  from Cons.IH [OF 3 1 4 5] 2 show ?case by simp
qed

text \<open>
  C1. From a session with the identity set, the index 0 and no results, n clicks on Save
  Scene and Continue (n at most the size of the catalog, any form values), each on a
  scene that can be drawn, so that its button is on the page, leave the index at n and n
  results, the i-th under the scene id of the i-th record of the catalog. A write that
  fails does not change this: the result is appended and the index incremented before
  the file is opened.
\<close>

theorem scene_submissions_in_order:
  assumes "distinct (SCENE_IDS e)"
    and "ldapid w = Some ident" and "scene_idx w = 0" and "scene_results w = []"
    and "length fs = n" and "n \<le> TOTAL_SCENES e"
    and "\<forall>i < n. drawable e (snd (SCENES e ! i))"
  shows "scene_idx (interact_all e (map SaveScene fs) w) = n
       \<and> length (scene_results (interact_all e (map SaveScene fs) w)) = n
       \<and> (\<forall>i < n. json_get (scene_results (interact_all e (map SaveScene fs) w) ! i) ''scene_id''
              = Some (JStr (scene_id (snd (SCENES e ! i)))))"
proof -
  from assms(3,4) have "in_order e w" by (simp add: in_order_def)
  from save_scene_steps [OF assms(1,2) this, of fs] assms(3,5,6,7)
  show ?thesis by (simp add: in_order_def)
qed

lemma drawable_env2: "drawable env2 sc1" "drawable env2 sc2"
  by (simp_all add: drawable_def shown_ok_def opened_def env2_def sc1_def sc2_def)

theorem scene_submissions_in_order_witness:
  "scene_idx (interact_all env2 (map SaveScene [f1, f1]) w_abc) = 2
   \<and> length (scene_results (interact_all env2 (map SaveScene [f1, f1]) w_abc)) = 2
   \<and> json_get (scene_results (interact_all env2 (map SaveScene [f1, f1]) w_abc) ! 0) ''scene_id''
       = Some (JStr ''s1'')
   \<and> json_get (scene_results (interact_all env2 (map SaveScene [f1, f1]) w_abc) ! 1) ''scene_id''
       = Some (JStr ''s2'')"
proof -
  have d: "distinct (SCENE_IDS env2)" by (simp add: SCENE_IDS_def env2_def)
  have l: "ldapid w_abc = Some ''abc''" and i: "scene_idx w_abc = 0"
    and r: "scene_results w_abc = []"
    by (simp_all add: w_abc_def)
  have n: "length [f1, f1] = 2" by simp
  have t: "(2::nat) \<le> TOTAL_SCENES env2" by (simp add: TOTAL_SCENES_def SCENE_IDS_def env2_def)
  have s: "snd (SCENES env2 ! 0) = sc1" "snd (SCENES env2 ! 1) = sc2" by (simp_all add: env2_def)
  have dr: "\<forall>i < 2. drawable env2 (snd (SCENES env2 ! i))"
    using drawable_env2 s by (simp add: less_Suc_eq numeral_2_eq_2)
  note c = scene_submissions_in_order [OF d l i r n t dr]
  from c have 0: "json_get (scene_results (interact_all env2 (map SaveScene [f1, f1]) w_abc) ! 0)
      ''scene_id'' = Some (JStr (scene_id (snd (SCENES env2 ! 0))))"
    by simp
  from c have 1: "json_get (scene_results (interact_all env2 (map SaveScene [f1, f1]) w_abc) ! 1)
      ''scene_id'' = Some (JStr (scene_id (snd (SCENES env2 ! 1))))"
    by simp
  from c 0 1 show ?thesis by (simp add: env2_def sc1_def sc2_def)
qed

subsection \<open>The gate\<close>

lemma gate_blank:
  "ldapid w = None \<Longrightarrow> strip raw = [] \<Longrightarrow>
   interact e (StartAnnotation raw) w = Stop w [StError ''LDAP ID is required.'']"
  by (simp add: interact_def script_def ldap_gate_def)

lemma gate_named:
  "ldapid w = None \<Longrightarrow> strip raw \<noteq> [] \<Longrightarrow>
   world_of (interact e (StartAnnotation raw) w) =
     (if writable e (out_path (Some (strip raw)))
      then w\<lparr>ldapid := Some (strip raw),
             files := (out_path (Some (strip raw)), snapshot e None (w\<lparr>ldapid := Some (strip raw)\<rparr>)) # files w\<rparr>
      else w\<lparr>ldapid := Some (strip raw)\<rparr>)"
  by (simp add: interact_world script_def ldap_gate_def save_progress_cases Let_def)

lemma gate_keeps:
  "ldapid w = None \<Longrightarrow> ldapid (world_of (interact e ev w)) = None \<Longrightarrow>
   world_of (interact e ev w) = w"
  by (cases ev) (auto simp: interact_world script_def ldap_gate_def save_progress_cases Let_def)

lemma gate_refused:
  "ldapid w = None \<Longrightarrow> strip raw \<noteq> [] \<Longrightarrow> \<not> writable e (out_path (Some (strip raw))) \<Longrightarrow>
   interact e (StartAnnotation raw) w = Raise OSError (w\<lparr>ldapid := Some (strip raw)\<rparr>)"
  by (simp add: interact_def script_def ldap_gate_def save_progress_cases Let_def)

text \<open>
  C6, as amended. A click on Start Annotation in a new session: when the stripped input
  is empty the run shows the error notice and stops, with the session state and the
  files as they were (no identity, nothing written). When it is not empty the identity
  is the stripped input, the index is 0 and there are no results; exactly one snapshot
  has been written, to the file of that identity, when that file can be opened for
  writing, and otherwise \<^verbatim>\<open>open\<close> raises and nothing has been written.
\<close>

theorem submit_identity:
  "(strip raw = [] \<longrightarrow>
      interact e (StartAnnotation raw) (session_start fs)
        = Stop (session_start fs) [StError ''LDAP ID is required.'']
      \<and> failed (interact e (StartAnnotation raw) (session_start fs))
      \<and> ldapid (world_of (interact e (StartAnnotation raw) (session_start fs))) = None
      \<and> files (world_of (interact e (StartAnnotation raw) (session_start fs))) = fs)
   \<and> (strip raw \<noteq> [] \<longrightarrow>
      ldapid (world_of (interact e (StartAnnotation raw) (session_start fs))) = Some (strip raw)
      \<and> scene_idx (world_of (interact e (StartAnnotation raw) (session_start fs))) = 0
      \<and> scene_results (world_of (interact e (StartAnnotation raw) (session_start fs))) = []
      \<and> (writable e (out_path (Some (strip raw))) \<longrightarrow>
           files (world_of (interact e (StartAnnotation raw) (session_start fs)))
             = (out_path (Some (strip raw)),
                JObj [(''ldapid'', JStr (strip raw)),
                      (''progress'', JObj [(''completed_scenes'', JInt 0),
                                           (''total_scenes'', JInt (int (TOTAL_SCENES e)))]),
                      (''scene_level'', JArr [])]) # fs)
      \<and> (\<not> writable e (out_path (Some (strip raw))) \<longrightarrow>
           files (world_of (interact e (StartAnnotation raw) (session_start fs))) = fs
           \<and> interact e (StartAnnotation raw) (session_start fs)
               = Raise OSError ((session_start fs)\<lparr>ldapid := Some (strip raw)\<rparr>)))"
proof -
  have n: "ldapid (session_start fs) = None" by (simp add: session_start_def)
  show ?thesis
    using gate_blank [OF n, of raw e] gate_named [OF n, of raw e] gate_refused [OF n, of raw e]
    by (auto simp: session_start_def snapshot_def ldapid_json_def)
qed

lemma out_path_a_b: "out_path (Some ''a/b'') = ''saved_annotations/annotations_a/b.json''"
  by code_simp

lemma out_path_collapses: "out_path (Some ''a//b'') = out_path (Some ''a/./b'')"
  by code_simp

lemma writable_env3:
  "writable env3 ''saved_annotations/annotations_abc.json''"
  "\<not> writable env3 ''saved_annotations/annotations_a/b.json''"
  by (simp add: env3_def, code_simp) (simp add: env3_def, code_simp)

theorem submit_identity_witness:
  "interact env3 (StartAnnotation ''   '') (session_start [])
     = Stop (session_start []) [StError ''LDAP ID is required.'']
   \<and> ldapid (world_of (interact env3 (StartAnnotation ''  abc '') (session_start []))) = Some ''abc''
   \<and> scene_idx (world_of (interact env3 (StartAnnotation ''  abc '') (session_start []))) = 0
   \<and> scene_results (world_of (interact env3 (StartAnnotation ''  abc '') (session_start []))) = []
   \<and> files (world_of (interact env3 (StartAnnotation ''  abc '') (session_start [])))
       = [(''saved_annotations/annotations_abc.json'',
           JObj [(''ldapid'', JStr ''abc''),
                 (''progress'', JObj [(''completed_scenes'', JInt 0),
                                      (''total_scenes'', JInt 2)]),
                 (''scene_level'', JArr [])])]
   \<and> ldapid (world_of (interact env3 (StartAnnotation ''a/b'') (session_start []))) = Some ''a/b''
   \<and> files (world_of (interact env3 (StartAnnotation ''a/b'') (session_start []))) = []"
proof -
  have b: "strip ''   '' = []" by (simp add: strip_def py_isspace_def)
  have a: "strip ''  abc '' = ''abc''" by (simp add: strip_def py_isspace_def)
  have c: "strip ''a/b'' = ''a/b''" by (simp add: strip_def py_isspace_def)
  have t: "TOTAL_SCENES env3 = 2" by (simp add: TOTAL_SCENES_def SCENE_IDS_def env3_def)
  from submit_identity [of "''   ''" env3 "[]"] b
  have 1: "interact env3 (StartAnnotation ''   '') (session_start [])
     = Stop (session_start []) [StError ''LDAP ID is required.'']"
    by simp
  from submit_identity [of "''  abc ''" env3 "[]"] a writable_env3(1) t
  have 2: "ldapid (world_of (interact env3 (StartAnnotation ''  abc '') (session_start []))) = Some ''abc''
   \<and> scene_idx (world_of (interact env3 (StartAnnotation ''  abc '') (session_start []))) = 0
   \<and> scene_results (world_of (interact env3 (StartAnnotation ''  abc '') (session_start []))) = []
   \<and> files (world_of (interact env3 (StartAnnotation ''  abc '') (session_start [])))
       = [(''saved_annotations/annotations_abc.json'',
           JObj [(''ldapid'', JStr ''abc''),
                 (''progress'', JObj [(''completed_scenes'', JInt 0),
                                      (''total_scenes'', JInt 2)]),
                 (''scene_level'', JArr [])])]"
    by (simp add: out_path_abc)
  from submit_identity [of "''a/b''" env3 "[]"] c writable_env3(2)
  have 3: "ldapid (world_of (interact env3 (StartAnnotation ''a/b'') (session_start []))) = Some ''a/b''
   \<and> files (world_of (interact env3 (StartAnnotation ''a/b'') (session_start []))) = []"
    by (simp add: out_path_a_b session_start_def)
  from 1 2 3 show ?thesis by simp
qed

text \<open>
  C6, as stated, fails: the identity a/b is not empty, and its file lies in a directory
  that does not exist. \<^verbatim>\<open>open\<close> raises at line 59 with the identity already set, and no
  snapshot is persisted.
\<close>

theorem identity_with_separator_not_saved:
  "strip ''a/b'' = ''a/b''
   \<and> out_path (Some ''a/b'') = ''saved_annotations/annotations_a/b.json''
   \<and> interact env3 (StartAnnotation ''a/b'') (session_start [])
       = Raise OSError \<lparr>ldapid = Some ''a/b'', scene_idx = 0, scene_results = [],
                        submitted_movie = False, files = []\<rparr>"
proof -
  have c: "strip ''a/b'' = ''a/b''" by (simp add: strip_def py_isspace_def)
  have n: "ldapid (session_start []) = None" by (simp add: session_start_def)
  from gate_refused [OF n, of "''a/b''" env3] c writable_env3(2)
  have "interact env3 (StartAnnotation ''a/b'') (session_start [])
       = Raise OSError ((session_start [])\<lparr>ldapid := Some ''a/b''\<rparr>)"
    by (simp add: out_path_a_b)
  with c out_path_a_b show ?thesis by (simp add: session_start_def)
qed

subsection \<open>The empty catalog\<close>

lemma script_empty_catalog:
  "TOTAL_SCENES e = 0 \<Longrightarrow> ldapid w = Some ident \<Longrightarrow> script e ev w = Raise ZeroDivisionError w"
  by (simp add: script_def)

lemma interact_empty_catalog:
  "TOTAL_SCENES e = 0 \<Longrightarrow> ldapid w = Some ident \<Longrightarrow> interact e ev w = Raise ZeroDivisionError w"
  by (simp add: interact_def script_empty_catalog)

text \<open>
  C7. With the empty catalog, the first run after the identity is accepted stops at line
  110 with ZeroDivisionError, and so does every later run, whatever is clicked: the
  session is past the gate with no scene left, but the movie form is never reached.
\<close>

theorem empty_catalog_raises:
  "TOTAL_SCENES env0 = 0
   \<and> interact env0 (StartAnnotation ''abc'') (session_start []) = Raise ZeroDivisionError w0_abc
   \<and> phase_of env0 w0_abc = AwaitingMovieLevel
   \<and> interact env0 NoClick w0_abc = Raise ZeroDivisionError w0_abc
   \<and> interact env0 (SubmitFinal m1) w0_abc = Raise ZeroDivisionError w0_abc"
proof -
  have t: "TOTAL_SCENES env0 = 0" by (simp add: TOTAL_SCENES_def SCENE_IDS_def env0_def)
  have s: "strip ''abc'' = ''abc''" by (simp add: strip_def py_isspace_def)
  have p: "out_path (Some ''abc'') = ''saved_annotations/annotations_abc.json''"
    by (rule out_path_abc)
  have w: "writable env0 p" for p by (simp add: env0_def)
  have g: "script env0 (StartAnnotation ''abc'') (session_start []) = Rerun w0_abc"
    by (simp add: script_def ldap_gate_def s save_progress_cases w p t snapshot_def
        ldapid_json_def session_start_def w0_abc_def)
  have l: "ldapid w0_abc = Some ''abc''" by (simp add: w0_abc_def)
  have 1: "interact env0 (StartAnnotation ''abc'') (session_start []) = Raise ZeroDivisionError w0_abc"
    by (simp add: interact_def g script_empty_catalog [OF t l])
  have 2: "phase_of env0 w0_abc = AwaitingMovieLevel"
    by (simp add: phase_of_def t w0_abc_def)
  from t 1 2 interact_empty_catalog [OF t l] show ?thesis by simp
qed

subsection \<open>Phases, and what save_progress writes\<close>

lemma phase_Scening:
  "phase_of e w = Scening \<longleftrightarrow> (\<exists>ident. ldapid w = Some ident) \<and> scene_idx w < TOTAL_SCENES e"
  by (auto simp: phase_of_def)

lemma phase_AwaitingMovieLevel:
  "phase_of e w = AwaitingMovieLevel \<longleftrightarrow>
     (\<exists>ident. ldapid w = Some ident) \<and> TOTAL_SCENES e \<le> scene_idx w \<and> \<not> submitted_movie w"
  by (auto simp: phase_of_def)

lemma phase_Completed:
  "phase_of e w = Completed \<longleftrightarrow>
     (\<exists>ident. ldapid w = Some ident) \<and> TOTAL_SCENES e \<le> scene_idx w \<and> submitted_movie w"
  by (auto simp: phase_of_def)

text \<open>
  C2, as amended. A save that succeeds, in a session whose identity is set, adds one write
  to the file of the identity; the document written has the top-level fields \<open>ldapid\<close>
  (the identity, a string), \<open>progress\<close> (with \<open>completed_scenes\<close> the index and
  \<open>total_scenes\<close> the size of the catalog), \<open>scene_level\<close> (the results, in order) and,
  exactly when a movie-level result is passed, \<open>movie_level\<close>: those and no other.
\<close>

theorem snapshot_fields:
  assumes "save_progress e movie_level w = Inr w'" and "ldapid w = Some ident"
  shows "\<exists>d. files w' = (out_path (Some ident), d) # files w
     \<and> json_keys d = [''ldapid'', ''progress'', ''scene_level'']
          @ (case movie_level of None \<Rightarrow> [] | Some m \<Rightarrow> [''movie_level''])
     \<and> json_get d ''ldapid'' = Some (JStr ident)
     \<and> json_get d ''progress''
          = Some (JObj [(''completed_scenes'', JInt (int (scene_idx w))),
                        (''total_scenes'', JInt (int (TOTAL_SCENES e)))])
     \<and> json_get d ''scene_level'' = Some (JArr (scene_results w))
     \<and> json_get d ''movie_level'' = movie_level"
  using assms
  by (auto simp: save_progress_cases snapshot_def ldapid_json_def split: if_splits option.split)

text \<open>
  C2, as stated, fails: the document has no field \<open>identity\<close>. Its first key is
  \<open>ldapid\<close>, as line 47 writes it.
\<close>

theorem snapshot_no_identity_field:
  "save_progress env2 None w_abc
     = Inr (w_abc\<lparr>files := [(''saved_annotations/annotations_abc.json'', snapshot env2 None w_abc)]\<rparr>)
   \<and> json_keys (snapshot env2 None w_abc) = [''ldapid'', ''progress'', ''scene_level'']
   \<and> json_get (snapshot env2 None w_abc) ''identity'' = None
   \<and> json_get (snapshot env2 None w_abc) ''ldapid'' = Some (JStr ''abc'')"
  by (simp add: save_progress_cases snapshot_def ldapid_json_def w_abc_def env2_def
      out_path_abc)

theorem snapshot_fields_witness:
  "\<exists>d. files (w_abc\<lparr>files := [(''saved_annotations/annotations_abc.json'', snapshot env2 (Some (movie_level_result m1)) w_abc)]\<rparr>)
          = [(''saved_annotations/annotations_abc.json'', d)]
     \<and> json_keys d = [''ldapid'', ''progress'', ''scene_level'', ''movie_level'']
     \<and> json_get d ''ldapid'' = Some (JStr ''abc'')
     \<and> json_get d ''progress''
          = Some (JObj [(''completed_scenes'', JInt 0), (''total_scenes'', JInt 2)])
     \<and> json_get d ''scene_level'' = Some (JArr [])
     \<and> json_get d ''movie_level'' = Some (movie_level_result m1)"
proof -
  have s: "save_progress env2 (Some (movie_level_result m1)) w_abc
     = Inr (w_abc\<lparr>files := [(''saved_annotations/annotations_abc.json'',
                              snapshot env2 (Some (movie_level_result m1)) w_abc)]\<rparr>)"
    by (simp add: save_progress_cases w_abc_def env2_def out_path_abc)
  have l: "ldapid w_abc = Some ''abc''" by (simp add: w_abc_def)
  have p: "out_path (Some ''abc'') = ''saved_annotations/annotations_abc.json''"
    by (rule out_path_abc)
  have t: "TOTAL_SCENES env2 = 2" by (simp add: TOTAL_SCENES_def SCENE_IDS_def env2_def)
  have i: "scene_idx w_abc = 0" "scene_results w_abc = []" "files w_abc = []"
    by (simp_all add: w_abc_def)
  from snapshot_fields [OF s l] show ?thesis
    by (simp add: p t i)
qed

text \<open>
  C9. After a save that succeeds, loading the identity of the session gives the snapshot
  that was saved.
\<close>

theorem load_after_save:
  assumes "save_progress e movie_level w = Inr w'" and "ldapid w = Some ident"
  shows "load w' ident = Some (snapshot e movie_level w)"
  using assms
  by (auto simp: save_progress_cases load_def read_file_def split: if_splits)

theorem load_after_save_witness:
  "load (w_abc\<lparr>files := [(''saved_annotations/annotations_abc.json'', snapshot env2 None w_abc)]\<rparr>) ''abc''
     = Some (JObj [(''ldapid'', JStr ''abc''),
                   (''progress'', JObj [(''completed_scenes'', JInt 0), (''total_scenes'', JInt 2)]),
                   (''scene_level'', JArr [])])"
proof -
  have s: "save_progress env2 None w_abc
     = Inr (w_abc\<lparr>files := [(''saved_annotations/annotations_abc.json'', snapshot env2 None w_abc)]\<rparr>)"
    by (simp add: save_progress_cases w_abc_def env2_def out_path_abc)
  have l: "ldapid w_abc = Some ''abc''" by (simp add: w_abc_def)
  have d: "snapshot env2 None w_abc = JObj [(''ldapid'', JStr ''abc''),
                   (''progress'', JObj [(''completed_scenes'', JInt 0), (''total_scenes'', JInt 2)]),
                   (''scene_level'', JArr [])]"
    by (simp add: snapshot_def ldapid_json_def w_abc_def TOTAL_SCENES_def SCENE_IDS_def env2_def)
  from load_after_save [OF s l] d show ?thesis by simp
qed

subsection \<open>Saving a scene\<close>

text \<open>A scene that cannot be drawn has no button: the run raises with nothing changed.\<close>

lemma click_on_undrawable_scene:
  assumes "distinct (SCENE_IDS e)" "ldapid w = Some ident" "scene_idx w < TOTAL_SCENES e"
    and "\<not> drawable e (snd (SCENES e ! scene_idx w))"
  shows "\<exists>ex. interact e ev w = Raise ex w"
proof -
  from scene_ui_undrawable [OF assms(4), of ev w] obtain ex
    where "scene_ui e ev (snd (SCENES e ! scene_idx w)) w = Raise ex w" ..
  with assms(1-3) have "script e ev w = Raise ex w"
    by (simp add: script_def get_scene_nth)
  then show ?thesis by (simp add: interact_def)
qed

lemma save_scene_not_failed:
  assumes "distinct (SCENE_IDS e)" "ldapid w = Some ident" "scene_idx w < TOTAL_SCENES e"
    and "drawable e (snd (SCENES e ! scene_idx w))"
    and "writable e (out_path (ldapid w))"
    and "drawable_at e (Suc (scene_idx w))"
  shows "\<not> failed (interact e (SaveScene f) w)"
proof -
  let ?w2 = "appended (snd (SCENES e ! scene_idx w)) f w"
  let ?w3 = "?w2\<lparr>files := (out_path (ldapid w), snapshot e None ?w2) # files w\<rparr>"
  from assms have s: "script e (SaveScene f) w = Rerun ?w3"
    by (simp add: script_def get_scene_nth scene_ui_drawable)
  have l: "ldapid ?w3 = Some ident" using assms(2) by (simp add: appended_def)
  have i: "scene_idx ?w3 = Suc (scene_idx w)" by (simp add: appended_def)
  have t: "0 < TOTAL_SCENES e" using assms(3) by simp
  have "\<not> failed (script e NoClick ?w3)"
  proof (cases "scene_idx ?w3 < TOTAL_SCENES e")
    case True
    with assms(6) i have "drawable e (snd (SCENES e ! scene_idx ?w3))"
      by (simp add: drawable_at_def)
    from script_NoClick_Scening [OF assms(1) l True this] show ?thesis by simp
  next
    case False
    then have "TOTAL_SCENES e \<le> scene_idx ?w3" by simp
    from script_NoClick_past [OF l t this] show ?thesis by simp
  qed
  with s show ?thesis by (simp add: interact_def)
qed

text \<open>
  C3, as amended. A scene submission carries no scene id that the script could compare:
  in the Scening phase, with the scene at the index drawn, every click on Save Scene and
  Continue is taken for that scene. The index goes up by one and the result appended has
  the scene id of the catalog record at the old index, whatever scene id the caller
  names. No error is reported for the submission: the action fails only when the file
  cannot be written or the next scene cannot be drawn.
\<close>

theorem submitScene_takes_catalog_id:
  assumes "distinct (SCENE_IDS e)" and "phase_of e w = Scening"
    and "drawable e (snd (SCENES e ! scene_idx w))"
  shows "scene_idx (world_of (submitScene e sceneId f w)) = scene_idx w + 1
       \<and> scene_results (world_of (submitScene e sceneId f w))
           = scene_results w @ [scene_result (snd (SCENES e ! scene_idx w)) f]
       \<and> json_get (last (scene_results (world_of (submitScene e sceneId f w)))) ''scene_id''
           = Some (JStr (scene_id (snd (SCENES e ! scene_idx w))))
       \<and> (writable e (out_path (ldapid w)) \<and> drawable_at e (Suc (scene_idx w))
            \<longrightarrow> \<not> failed (submitScene e sceneId f w))"
proof -
  from assms(2) obtain ident where l: "ldapid w = Some ident" and i: "scene_idx w < TOTAL_SCENES e"
    by (auto simp: phase_Scening)
  from world_of_save_scene [OF assms(1) l i assms(3), of f]
    save_scene_not_failed [OF assms(1) l i assms(3), of f]
  show ?thesis
    by (simp add: submitScene_def appended_def json_get_scene_result)
qed

theorem submitScene_takes_catalog_id_witness:
  "scene_idx (world_of (submitScene env2 ''s1'' f1 w_abc)) = 1
   \<and> scene_results (world_of (submitScene env2 ''s1'' f1 w_abc)) = [scene_result sc1 f1]
   \<and> json_get (last (scene_results (world_of (submitScene env2 ''s1'' f1 w_abc)))) ''scene_id''
       = Some (JStr ''s1'')
   \<and> \<not> failed (submitScene env2 ''s1'' f1 w_abc)"
proof -
  have d: "distinct (SCENE_IDS env2)" by (simp add: SCENE_IDS_def env2_def)
  have p: "phase_of env2 w_abc = Scening"
    by (simp add: phase_of_def w_abc_def TOTAL_SCENES_def SCENE_IDS_def env2_def)
  have w: "writable env2 (out_path (ldapid w_abc))" by (simp add: env2_def)
  have s: "snd (SCENES env2 ! 0) = sc1" by (simp add: env2_def)
  have i: "scene_idx w_abc = 0" "scene_results w_abc = []" by (simp_all add: w_abc_def)
  have n: "scene_id sc1 = ''s1''" by (simp add: sc1_def)
  have dr: "drawable env2 (snd (SCENES env2 ! scene_idx w_abc))"
    using drawable_env2(1) by (simp add: i s)
  have nx: "drawable_at env2 (Suc (scene_idx w_abc))"
    using drawable_env2(2) by (simp add: drawable_at_def i env2_def)
  from submitScene_takes_catalog_id [OF d p dr, of "''s1''" f1] w nx
  show ?thesis by (simp add: s i n json_get_scene_result)
qed

text \<open>
  C3, as stated, fails: with the index at scene s1, a submission meant for s2 is not
  rejected. It is stored as the result of s1, the index moves on and a snapshot is written.
\<close>

theorem stale_scene_id_accepted:
  "phase_of env2 w_abc = Scening
   \<and> scene_id (snd (SCENES env2 ! scene_idx w_abc)) = ''s1''
   \<and> \<not> failed (submitScene env2 ''s2'' f1 w_abc)
   \<and> scene_idx (world_of (submitScene env2 ''s2'' f1 w_abc)) = 1
   \<and> scene_results (world_of (submitScene env2 ''s2'' f1 w_abc)) = [scene_result sc1 f1]
   \<and> length (files (world_of (submitScene env2 ''s2'' f1 w_abc))) = 1"
proof -
  have d: "distinct (SCENE_IDS env2)" by (simp add: SCENE_IDS_def env2_def)
  have l: "ldapid w_abc = Some ''abc''" by (simp add: w_abc_def)
  have i: "scene_idx w_abc < TOTAL_SCENES env2"
    by (simp add: w_abc_def TOTAL_SCENES_def SCENE_IDS_def env2_def)
  have w: "writable env2 (out_path (ldapid w_abc))" by (simp add: env2_def)
  have p: "phase_of env2 w_abc = Scening" using l i by (simp add: phase_Scening)
  have s: "snd (SCENES env2 ! scene_idx w_abc) = sc1" by (simp add: env2_def w_abc_def)
  have dr: "drawable env2 (snd (SCENES env2 ! scene_idx w_abc))"
    using drawable_env2(1) by (simp add: s)
  have nx: "drawable_at env2 (Suc (scene_idx w_abc))"
    using drawable_env2(2) by (simp add: drawable_at_def w_abc_def env2_def)
  from world_of_save_scene [OF d l i dr, of f1] save_scene_not_failed [OF d l i dr w nx, of f1] p s w
  show ?thesis
    by (simp add: submitScene_def appended_def) (simp add: sc1_def w_abc_def)
qed




subsection \<open>The final submission\<close>

lemma movie_submit:
  assumes "ldapid w = Some ident" "0 < TOTAL_SCENES e" "TOTAL_SCENES e \<le> scene_idx w"
    and "\<not> submitted_movie w" "writable e (out_path (ldapid w))"
  shows "interact e (SubmitFinal m) w
     = Stop (w\<lparr>files := (out_path (ldapid w), snapshot e (Some (movie_level_result m)) w) # files w,
               submitted_movie := True\<rparr>)
         [StSuccess ''All scenes completed.'', StSuccess ''All annotations saved successfully.'']"
  using assms
  by (simp add: interact_def script_def get_scene_past movie_ui_def save_progress_cases)

lemma completed_ignores:
  assumes "ldapid w = Some ident" "0 < TOTAL_SCENES e" "TOTAL_SCENES e \<le> scene_idx w"
    and "submitted_movie w"
  shows "interact e ev w = Stop w [StSuccess ''All scenes completed.'']"
  using assms
  by (simp add: interact_def script_def get_scene_past movie_ui_def)

text \<open>
  C5, as amended. With a catalog that is not empty, the first click on Submit Final
  Evaluation (the file being writable) completes the session and writes the snapshot with
  its \<open>movie_level\<close>. A second click, with any values, does nothing: the run shows the
  notice of line 152 only, reports no error, and leaves the session state and the files,
  so the stored movie-level result, as they were.
\<close>

theorem second_final_submit_ignored:
  assumes "0 < TOTAL_SCENES e" and "phase_of e w = AwaitingMovieLevel"
    and "writable e (out_path (ldapid w))"
    and "w1 = world_of (interact e (SubmitFinal m) w)"
  shows "phase_of e w1 = Completed
       \<and> read_file w1 (out_path (ldapid w)) = Some (snapshot e (Some (movie_level_result m)) w)
       \<and> json_get (snapshot e (Some (movie_level_result m)) w) ''movie_level''
           = Some (movie_level_result m)
       \<and> interact e (SubmitFinal m') w1 = Stop w1 [StSuccess ''All scenes completed.'']
       \<and> \<not> failed (interact e (SubmitFinal m') w1)
       \<and> read_file (world_of (interact e (SubmitFinal m') w1)) (out_path (ldapid w))
           = Some (snapshot e (Some (movie_level_result m)) w)"
proof -
  from assms(2) obtain ident where l: "ldapid w = Some ident"
    and i: "TOTAL_SCENES e \<le> scene_idx w" and s: "\<not> submitted_movie w"
    by (auto simp: phase_AwaitingMovieLevel)
  from movie_submit [OF l assms(1) i s assms(3), of m] assms(4)
  have w1: "w1 = w\<lparr>files := (out_path (ldapid w), snapshot e (Some (movie_level_result m)) w) # files w,
               submitted_movie := True\<rparr>"
    by simp
  from w1 l have l1: "ldapid w1 = Some ident" by simp
  from w1 i have i1: "TOTAL_SCENES e \<le> scene_idx w1" by simp
  from w1 have s1: "submitted_movie w1" by simp
  from l1 i1 s1 have 1: "phase_of e w1 = Completed" by (simp add: phase_Completed)
  from w1 have 2: "read_file w1 (out_path (ldapid w)) = Some (snapshot e (Some (movie_level_result m)) w)"
    by (simp add: read_file_def)
  have 3: "json_get (snapshot e (Some (movie_level_result m)) w) ''movie_level''
           = Some (movie_level_result m)"
    by (simp add: snapshot_def)
  from completed_ignores [OF l1 assms(1) i1 s1, of "SubmitFinal m'"] 1 2 3
  show ?thesis by simp
qed

theorem second_final_submit_ignored_witness:
  "phase_of env2 (world_of (interact env2 (SubmitFinal m1) w_two)) = Completed
   \<and> read_file (world_of (interact env2 (SubmitFinal m1) w_two))
        ''saved_annotations/annotations_abc.json''
      = Some (snapshot env2 (Some (movie_level_result m1)) w_two)
   \<and> interact env2 (SubmitFinal m2) (world_of (interact env2 (SubmitFinal m1) w_two))
      = Stop (world_of (interact env2 (SubmitFinal m1) w_two)) [StSuccess ''All scenes completed.'']
   \<and> read_file (world_of (interact env2 (SubmitFinal m2)
          (world_of (interact env2 (SubmitFinal m1) w_two))))
        ''saved_annotations/annotations_abc.json''
      = Some (snapshot env2 (Some (movie_level_result m1)) w_two)"
proof -
  have t: "0 < TOTAL_SCENES env2" by (simp add: TOTAL_SCENES_def SCENE_IDS_def env2_def)
  have p: "phase_of env2 w_two = AwaitingMovieLevel"
    by (simp add: phase_of_def w_two_def TOTAL_SCENES_def SCENE_IDS_def env2_def)
  have w: "writable env2 (out_path (ldapid w_two))" by (simp add: env2_def)
  have o: "out_path (ldapid w_two) = ''saved_annotations/annotations_abc.json''"
    by (simp add: w_two_def out_path_abc)
  from second_final_submit_ignored [OF t p w refl, of m1 m2]
  show ?thesis by (simp add: o)
qed

lemma w_done_fields:
  "ldapid w_done = Some ''abc'' \<and> scene_idx w_done = 2 \<and> submitted_movie w_done"
  unfolding w_done_def by code_simp

text \<open>
  C5, as stated, fails: after a whole session, from the start to the final submission, a
  second final submission is not reported as an error.
\<close>

theorem second_final_submit_no_error:
  "phase_of env2 w_done = Completed
   \<and> interact env2 (SubmitFinal m2) w_done = Stop w_done [StSuccess ''All scenes completed.'']
   \<and> \<not> failed (interact env2 (SubmitFinal m2) w_done)"
proof -
  have t: "TOTAL_SCENES env2 = 2" by (simp add: TOTAL_SCENES_def SCENE_IDS_def env2_def)
  from w_done_fields t have p: "phase_of env2 w_done = Completed"
    by (simp add: phase_Completed)
  from w_done_fields t completed_ignores [of w_done "''abc''" env2 "SubmitFinal m2"]
  have "interact env2 (SubmitFinal m2) w_done = Stop w_done [StSuccess ''All scenes completed.'']"
    by simp
  with p show ?thesis by simp
qed

end
